theory Spec2Isabelle
  imports Main "HOL-Library.Word" "HOL-Library.Sublist"
begin

unbundle bit_operations_syntax

section \<open>Python values\<close>

text \<open>
  The script \<^verbatim>\<open>script/native-tests.py\<close> is Python 2 (\<^verbatim>\<open>print\<close> statement,
  \<^verbatim>\<open>basestring\<close>, \<^verbatim>\<open>data_item.keys()[0]\<close>). Exceptions become values of
  \<open>pyerror\<close>; a computation that may raise returns \<open>pyerror + 'a\<close>.
\<close>

datatype pyerror =
    IOError
  | KeyError string
  | TypeError
  | IndexError
  | AttributeError
  | AssertionError
  | OSError
  | Exception string

text \<open>
  What \<^verbatim>\<open>yaml.load\<close> hands back. Mapping keys are strings (binary names and
  setting names); a mapping carries its key/value pairs in document order.
\<close>

datatype yaml =
    YNull
  | YBool bool
  | YInt int
  | YStr string
  | YSeq "yaml list"
  | YMap "(string \<times> yaml) list"

subsection \<open>Dictionaries\<close>

text \<open>
  A dict is kept as its entries in order of first insertion. Assigning to a key that
  is present replaces the value where it stands, a new key is added at the end.
\<close>

type_synonym 'v pydict = "(string \<times> 'v) list"

definition dict_contains :: "'v pydict \<Rightarrow> string \<Rightarrow> bool" where
  "dict_contains d k = (k \<in> set (map fst d))"

definition dict_get :: "'v pydict \<Rightarrow> string \<Rightarrow> 'v option" where
  "dict_get d k = map_of d k"

fun dict_set :: "'v pydict \<Rightarrow> string \<Rightarrow> 'v \<Rightarrow> 'v pydict" where
  "dict_set [] k v = [(k, v)]"
| "dict_set ((k', v') # d) k v =
     (if k' = k then (k, v) # d else (k', v') # dict_set d k v)"

text \<open>The dict PyYAML builds from a mapping node: one assignment per pair, in order.\<close>

definition yaml_dict :: "(string \<times> yaml) list \<Rightarrow> yaml pydict" where
  "yaml_dict kvs = fold (\<lambda>(k, v) d. dict_set d k v) kvs []"

subsection \<open>Iteration order of a Python 2 dict\<close>

text \<open>
  \<^verbatim>\<open>keys()\<close> of a Python 2 dict walks the slots of its hash table. The table is
  that of CPython 2.7 on a 64-bit build without hash randomisation: the string hash,
  open addressing with the perturbed probe sequence, a table of 8 slots that is
  rebuilt at four times the number of entries when it is two thirds full. No entry is
  ever deleted by the script, so the table holds keys and free slots only.
\<close>

definition py27_string_hash :: "string \<Rightarrow> 64 word" where
  "py27_string_hash s = (if s = [] then 0 else
     let x0 = push_bit 7 (of_nat (of_char (hd s)));
         x1 = fold (\<lambda>c x. (1000003 * x) XOR of_nat (of_char c)) s x0;
         x2 = x1 XOR of_nat (length s)
     in if x2 = - 1 then - 2 else x2)"

fun py27_lookdict :: "nat \<Rightarrow> string option list \<Rightarrow> string \<Rightarrow> 64 word \<Rightarrow> 64 word \<Rightarrow> nat" where
  "py27_lookdict 0 tbl k i perturb = unat (i AND of_nat (length tbl - 1))"
| "py27_lookdict (Suc fuel) tbl k i perturb =
     (let idx = unat (i AND of_nat (length tbl - 1)) in
      if tbl ! idx = None \<or> tbl ! idx = Some k then idx
      else py27_lookdict fuel tbl k (push_bit 2 i + i + perturb + 1) (drop_bit 5 perturb))"

definition py27_place :: "string option list \<Rightarrow> string \<Rightarrow> string option list" where
  "py27_place tbl k =
     (let h = py27_string_hash k;
          idx = py27_lookdict (64 + length tbl) tbl k (h AND of_nat (length tbl - 1)) h
      in tbl[idx := Some k])"

fun py27_newsize :: "nat \<Rightarrow> nat \<Rightarrow> nat \<Rightarrow> nat" where
  "py27_newsize 0 newsize minused = newsize"
| "py27_newsize (Suc fuel) newsize minused =
     (if newsize \<le> minused then py27_newsize fuel (2 * newsize) minused else newsize)"

definition py27_resize :: "string option list \<Rightarrow> nat \<Rightarrow> string option list" where
  "py27_resize tbl minused =
     fold (\<lambda>slot t. case slot of None \<Rightarrow> t | Some k \<Rightarrow> py27_place t k) tbl
          (replicate (py27_newsize minused 8 minused) None)"

definition py27_setitem :: "string option list \<Rightarrow> string \<Rightarrow> string option list" where
  "py27_setitem tbl k =
     (if Some k \<in> set tbl then tbl
      else let t = py27_place tbl k;
               used = length (filter (\<lambda>slot. slot \<noteq> None) t)
           in if used * 3 \<ge> length t * 2
              then py27_resize t ((if used > 50000 then 2 else 4) * used)
              else t)"

definition py27_table :: "string list \<Rightarrow> string option list" where
  "py27_table ks = fold (\<lambda>k t. py27_setitem t k) ks (replicate 8 None)"

definition py27_slot :: "string list \<Rightarrow> string \<Rightarrow> nat" where
  "py27_slot ks k = length (takeWhile (\<lambda>slot. slot \<noteq> Some k) (py27_table ks))"

text \<open>\<^verbatim>\<open>d.keys()\<close>: the keys, by the slot each one occupies.\<close>

definition dict_keys :: "'v pydict \<Rightarrow> string list" where
  "dict_keys d = (let ks = map fst d in sort_key (py27_slot ks) ks)"

subsection \<open>Operators on loaded values\<close>

fun py_substring :: "string \<Rightarrow> string \<Rightarrow> bool" where
  "py_substring k [] = (k = [])"
| "py_substring k (c # s) = (prefix k (c # s) \<or> py_substring k s)"

text \<open>\<^verbatim>\<open>k in v\<close> for a string \<open>k\<close>.\<close>

fun py_in :: "string \<Rightarrow> yaml \<Rightarrow> pyerror + bool" where
  "py_in k (YMap kvs) = Inr (dict_contains (yaml_dict kvs) k)"
| "py_in k (YStr s) = Inr (py_substring k s)"
| "py_in k (YSeq xs) = Inr (YStr k \<in> set xs)"
| "py_in k YNull = Inl TypeError"
| "py_in k (YBool b) = Inl TypeError"
| "py_in k (YInt i) = Inl TypeError"

text \<open>\<^verbatim>\<open>v[k]\<close> for a string \<open>k\<close>.\<close>

fun py_getitem :: "string \<Rightarrow> yaml \<Rightarrow> pyerror + yaml" where
  "py_getitem k (YMap kvs) =
     (case dict_get (yaml_dict kvs) k of None \<Rightarrow> Inl (KeyError k) | Some v \<Rightarrow> Inr v)"
| "py_getitem k YNull = Inl TypeError"
| "py_getitem k (YBool b) = Inl TypeError"
| "py_getitem k (YInt i) = Inl TypeError"
| "py_getitem k (YStr s) = Inl TypeError"
| "py_getitem k (YSeq xs) = Inl TypeError"

text \<open>\<^verbatim>\<open>for x in v\<close>: the values the loop sees.\<close>

fun py_iter :: "yaml \<Rightarrow> pyerror + yaml list" where
  "py_iter (YSeq xs) = Inr xs"
| "py_iter (YStr s) = Inr (map (\<lambda>c. YStr [c]) s)"
| "py_iter (YMap kvs) = Inr (map YStr (dict_keys (yaml_dict kvs)))"
| "py_iter YNull = Inl TypeError"
| "py_iter (YBool b) = Inl TypeError"
| "py_iter (YInt i) = Inl TypeError"

text \<open>\<^verbatim>\<open>sep.join(xs)\<close>\<close>

fun py_join :: "string \<Rightarrow> string list \<Rightarrow> string" where
  "py_join sep [] = []"
| "py_join sep [x] = x"
| "py_join sep (x # y # ys) = x @ sep @ py_join sep (y # ys)"

text \<open>\<^verbatim>\<open>os.path.join(a, b)\<close> of \<^verbatim>\<open>posixpath\<close>, and the same with \<^verbatim>\<open>a\<close> possibly \<^verbatim>\<open>None\<close>.\<close>

definition os_path_join :: "string \<Rightarrow> string \<Rightarrow> string" where
  "os_path_join a b =
     (if prefix ''/'' b then b
      else if a = [] \<or> last a = CHR ''/'' then a @ b
      else a @ ''/'' @ b)"

definition os_path_join_opt :: "string option \<Rightarrow> string \<Rightarrow> pyerror + string" where
  "os_path_join_opt a b =
     (case a of
        Some a' \<Rightarrow> Inr (os_path_join a' b)
      | None \<Rightarrow> if prefix ''/'' b then Inr b else Inl AttributeError)"

section \<open>The tests list\<close>

record test_data =
  excluded_tests :: "string list option"
  platforms :: "string list option"

record TestsList =
  config_path :: string
  tests_dir :: "string option"
  tests :: "test_data pydict"

text \<open>
  \<^verbatim>\<open>__get_config_data\<close>: the file system is a function from a path to the document
  loaded from it, \<open>None\<close> when the file cannot be opened.
\<close>

definition get_config_data :: "(string \<Rightarrow> yaml option) \<Rightarrow> string \<Rightarrow> pyerror + yaml" where
  "get_config_data fs path =
     (case fs path of None \<Rightarrow> Inl IOError | Some doc \<Rightarrow> Inr doc)"

fun expand_shorthand :: "yaml \<Rightarrow> pyerror + yaml pydict" where
  "expand_shorthand (YMap kvs) = Inr (yaml_dict kvs)"
| "expand_shorthand (YStr s) = Inr [(s, YNull)]"
| "expand_shorthand YNull = Inl AssertionError"
| "expand_shorthand (YBool b) = Inl AssertionError"
| "expand_shorthand (YInt i) = Inl AssertionError"
| "expand_shorthand (YSeq xs) = Inl AssertionError"

text \<open>
  \<^verbatim>\<open>__get_test_data\<close>. \<^verbatim>\<open>test_data\<close> is a dict, and
  \<^verbatim>\<open>test_data.excluded_tests = configs['to_fix']\<close> sets an attribute on it: once the
  right-hand side is evaluated the statement raises AttributeError.
\<close>

definition get_test_data :: "yaml \<Rightarrow> pyerror + (string \<times> test_data)" where
  "get_test_data data_item =
     (case expand_shorthand data_item of
        Inl e \<Rightarrow> Inl e
      | Inr d \<Rightarrow>
         (case dict_keys d of
            [] \<Rightarrow> Inl IndexError
          | binary_name # _ \<Rightarrow>
             (let td = \<lparr>excluded_tests = None, platforms = None\<rparr> in
              case dict_get d binary_name of
                None \<Rightarrow> Inl (KeyError binary_name)
              | Some configs \<Rightarrow>
                 if configs \<noteq> YNull then
                   (case py_in ''to_fix'' configs of
                      Inl e \<Rightarrow> Inl e
                    | Inr found \<Rightarrow>
                       if found then
                         (case py_getitem ''to_fix'' configs of
                            Inl e \<Rightarrow> Inl e
                          | Inr v \<Rightarrow> Inl AttributeError)
                       else Inr (binary_name, td))
                 else Inr (binary_name, td))))"

text \<open>The loop of \<^verbatim>\<open>__get_tests_list\<close> over the entries still to be read.\<close>

fun tests_loop :: "yaml list \<Rightarrow> test_data pydict \<Rightarrow> pyerror + test_data pydict" where
  "tests_loop [] tests_list = Inr tests_list"
| "tests_loop (data_item # rest) tests_list =
     (case get_test_data data_item of
        Inl e \<Rightarrow> Inl e
      | Inr (binary_name, td) \<Rightarrow> tests_loop rest (dict_set tests_list binary_name td))"

definition get_tests_list :: "(string \<Rightarrow> yaml option) \<Rightarrow> string \<Rightarrow> pyerror + test_data pydict" where
  "get_tests_list fs path =
     (case get_config_data fs path of
        Inl e \<Rightarrow> Inl e
      | Inr config_data \<Rightarrow>
         (case py_getitem ''tests'' config_data of
            Inl e \<Rightarrow> Inl e
          | Inr entries \<Rightarrow>
             (case py_iter entries of
                Inl e \<Rightarrow> Inl e
              | Inr items \<Rightarrow> tests_loop items [])))"

definition TestsList_init ::
  "(string \<Rightarrow> yaml option) \<Rightarrow> string \<Rightarrow> string option \<Rightarrow> pyerror + TestsList" where
  "TestsList_init fs path dir =
     (case get_tests_list fs path of
        Inl e \<Rightarrow> Inl e
      | Inr t \<Rightarrow> Inr \<lparr>config_path = path, tests_dir = dir, tests = t\<rparr>)"

section \<open>Running binaries\<close>

datatype stdout_target = Inherit | DevNull

record invocation =
  args :: "string list"
  stdout :: stdout_target

text \<open>
  The state of a run: the \<^verbatim>\<open>TestsList\<close> object and the record of every
  \<^verbatim>\<open>subprocess.call\<close> made so far with what it returned (\<open>None\<close>: the launch raised
  OSError). The operating system is a function from that record and the invocation to
  the outcome of the call.
\<close>

record pstate =
  self :: TestsList
  calls :: "(invocation \<times> int option) list"

type_synonym os = "(invocation \<times> int option) list \<Rightarrow> invocation \<Rightarrow> int option"

definition subprocess_call :: "os \<Rightarrow> invocation \<Rightarrow> pstate \<Rightarrow> (pyerror + int) \<times> pstate" where
  "subprocess_call os call s =
     (let r = os (calls s) call;
          s' = s\<lparr>calls := calls s @ [(call, r)]\<rparr>
      in case r of None \<Rightarrow> (Inl OSError, s') | Some returncode \<Rightarrow> (Inr returncode, s'))"

record TestBinary =
  binary_path :: string
  output_format :: string

definition TestBinary_init :: "string \<Rightarrow> TestBinary" where
  "TestBinary_init path = \<lparr>binary_path = path, output_format = ''xml''\<rparr>"

definition format_excluded_tests :: "string list \<Rightarrow> string" where
  "format_excluded_tests excluded = ''-'' @ py_join '':'' excluded"

definition TestBinary_run ::
  "os \<Rightarrow> TestBinary \<Rightarrow> string list option \<Rightarrow> string option \<Rightarrow> pstate \<Rightarrow> (pyerror + int) \<times> pstate" where
  "TestBinary_run os tb excluded output_file_path s =
     (let gtest_filter =
            (case excluded of
               None \<Rightarrow> ''''
             | Some xs \<Rightarrow>
                if length xs > 0 then ''--gtest_filter='' @ format_excluded_tests xs else '''');
          gtest_output =
            (case output_file_path of
               None \<Rightarrow> ''''
             | Some p \<Rightarrow> ''--gtest_output='' @ output_format tb @ '':'' @ p);
          argv = [binary_path tb, gtest_filter, gtest_output];
          out = (case output_file_path of None \<Rightarrow> Inherit | Some p \<Rightarrow> DevNull)
      in subprocess_call os \<lparr>args = argv, stdout = out\<rparr> s)"

definition get_output_path :: "string \<Rightarrow> string option \<Rightarrow> string option" where
  "get_output_path binary_name output_dir =
     (case output_dir of
        None \<Rightarrow> None
      | Some dir \<Rightarrow> Some (os_path_join dir (''results_'' @ binary_name @ ''.xml'')))"

text \<open>\<^verbatim>\<open>TestsList.__run\<close>\<close>

definition run_private :: "os \<Rightarrow> string \<Rightarrow> string option \<Rightarrow> pstate \<Rightarrow> (pyerror + int) \<times> pstate" where
  "run_private os binary_name output_dir s =
     (case os_path_join_opt (tests_dir (self s)) binary_name of
        Inl e \<Rightarrow> (Inl e, s)
      | Inr path \<Rightarrow>
         (let test_binary = TestBinary_init path in
          case dict_get (tests (self s)) binary_name of
            None \<Rightarrow> (Inl (KeyError binary_name), s)
          | Some td \<Rightarrow>
             TestBinary_run os test_binary (excluded_tests td)
               (get_output_path binary_name output_dir) s))"

definition not_found_message :: "string \<Rightarrow> string \<Rightarrow> string" where
  "not_found_message binary_name path =
     ''binary '' @ [CHR 0x27] @ binary_name @ [CHR 0x27] @
     '' not found in config '' @ [CHR 0x27] @ path @ [CHR 0x27]"

text \<open>The first loop of \<^verbatim>\<open>run\<close>: the exception it raises, if any.\<close>

fun run_check :: "TestsList \<Rightarrow> string list \<Rightarrow> pyerror option" where
  "run_check obj [] = None"
| "run_check obj (binary_name # rest) =
     (if \<not> dict_contains (tests obj) binary_name
      then Some (Exception (not_found_message binary_name (config_path obj)))
      else run_check obj rest)"

text \<open>The second loop of \<^verbatim>\<open>run\<close>, from a given \<^verbatim>\<open>suite_returncode\<close>.\<close>

fun run_loop :: "os \<Rightarrow> string option \<Rightarrow> string list \<Rightarrow> int \<Rightarrow> pstate \<Rightarrow> (pyerror + int) \<times> pstate" where
  "run_loop os output_dir [] suite_returncode s = (Inr suite_returncode, s)"
| "run_loop os output_dir (binary_name # rest) suite_returncode s =
     (case run_private os binary_name output_dir s of
        (Inl e, s') \<Rightarrow> (Inl e, s')
      | (Inr test_returncode, s') \<Rightarrow>
          run_loop os output_dir rest (suite_returncode + test_returncode) s')"

definition run :: "os \<Rightarrow> string list \<Rightarrow> string option \<Rightarrow> pstate \<Rightarrow> (pyerror + int) \<times> pstate" where
  "run os binaries output_dir s =
     (case run_check (self s) binaries of
        Some e \<Rightarrow> (Inl e, s)
      | None \<Rightarrow> run_loop os output_dir binaries 0 s)"

definition get_names :: "pstate \<Rightarrow> string list \<times> pstate" where
  "get_names s = (dict_keys (tests (self s)), s)"

definition run_only :: "os \<Rightarrow> string \<Rightarrow> string option \<Rightarrow> pstate \<Rightarrow> (pyerror + int) \<times> pstate" where
  "run_only os binary_name output_dir s = run os [binary_name] output_dir s"

definition run_all :: "os \<Rightarrow> string option \<Rightarrow> pstate \<Rightarrow> (pyerror + int) \<times> pstate" where
  "run_all os output_dir s =
     (case get_names s of (names, s') \<Rightarrow> run os names output_dir s')"

section \<open>Entries of the configuration document\<close>

text \<open>
  The binary name an entry of the \<^verbatim>\<open>tests\<close> sequence declares, when the entry has one
  of the two documented shapes: a bare string, or a mapping with a single key.
\<close>

fun entry_name :: "yaml \<Rightarrow> string option" where
  "entry_name (YStr n) = Some n"
| "entry_name (YMap [(n, settings)]) = Some n"
| "entry_name _ = None"

section \<open>Properties\<close>

subsection \<open>Loading the configuration\<close>

lemma dict_keys_single: "dict_keys [(k, v)] = [k]"
  by (simp add: dict_keys_def)

text \<open>
  C1 (the code departs from the claim). The claim: an entry whose settings hold a
  \<^verbatim>\<open>to_fix\<close> key gets that sequence as its excluded tests. In the script the
  assignment \<^verbatim>\<open>test_data.excluded_tests = configs['to_fix']\<close> is an attribute
  assignment on a dict, so for every binary name and every value stored under
  \<^verbatim>\<open>to_fix\<close> reading the entry raises AttributeError and no policy is produced.
\<close>

theorem get_test_data_to_fix_raises:
  "get_test_data (YMap [(name, YMap [(''to_fix'', v)])]) = Inl AttributeError"
  by (simp add: get_test_data_def yaml_dict_def dict_keys_single dict_get_def dict_contains_def)

text \<open>
  C8. A bare string entry and the single-key mapping from the same name to null give
  the same name and the same policy, with no excluded tests.
\<close>

theorem shorthand_same_policy:
  "get_test_data (YStr name) = get_test_data (YMap [(name, YNull)]) \<and>
   get_test_data (YStr name) = Inr (name, \<lparr>excluded_tests = None, platforms = None\<rparr>)"
  by (simp add: get_test_data_def yaml_dict_def dict_keys_single dict_get_def)

subsection \<open>The object is only read\<close>

lemma subprocess_call_self: "self (snd (subprocess_call os c s)) = self s"
  by (simp add: subprocess_call_def Let_def split: option.split)

lemma TestBinary_run_self: "self (snd (TestBinary_run os tb ex out s)) = self s"
  by (simp add: TestBinary_run_def Let_def subprocess_call_self)

lemma run_private_self: "self (snd (run_private os b od s)) = self s"
  by (simp add: run_private_def Let_def TestBinary_run_self split: sum.split option.split)

lemma run_loop_self: "self (snd (run_loop os od bs acc s)) = self s"
proof (induction bs arbitrary: acc s)
  case Nil
  show ?case by simp
next
  case (Cons b bs)
  obtain r s' where rs: "run_private os b od s = (r, s')"
    by (cases "run_private os b od s")
  have s': "self s' = self s"
    using run_private_self[of os b od s] rs by simp
  show ?case
  proof (cases r)
    case (Inl e)
    then show ?thesis using rs s' by simp
  next
    case (Inr c)
    then show ?thesis using rs s' Cons.IH[of "acc + c" s'] by simp
  qed
qed

lemma run_self: "self (snd (run os bs od s)) = self s"
  by (simp add: run_def run_loop_self split: option.split)

text \<open>
  C9. Whatever the operating system answers, \<^verbatim>\<open>get_names\<close>, \<^verbatim>\<open>run\<close>,
  \<^verbatim>\<open>__run\<close>, \<^verbatim>\<open>run_only\<close> and \<^verbatim>\<open>run_all\<close> leave the object (config path, tests
  dir and the mapping from names to test data) as they found it.
\<close>

theorem registry_unchanged:
  "self (snd (get_names s)) = self s \<and>
   self (snd (run os binaries output_dir s)) = self s \<and>
   self (snd (run_private os binary_name output_dir s)) = self s \<and>
   self (snd (run_only os binary_name output_dir s)) = self s \<and>
   self (snd (run_all os output_dir s)) = self s"
  by (simp add: get_names_def run_self run_private_self run_only_def run_all_def)

subsection \<open>Running\<close>

text \<open>
  C10. \<^verbatim>\<open>run\<close> on no names returns 0 and makes no call: the state, with its record
  of calls, is the one it was given.
\<close>

theorem run_empty: "run os [] output_dir s = (Inr 0, s)"
  by (simp add: run_def)

text \<open>
  C7. \<^verbatim>\<open>run_all\<close> gives the result and the final state (so the same calls) of
  \<^verbatim>\<open>run\<close> on the names \<^verbatim>\<open>get_names\<close> returns.
\<close>

theorem run_all_is_run_of_names:
  "run_all os output_dir s = run os (fst (get_names s)) output_dir s"
  by (simp add: run_all_def get_names_def)

subsection \<open>The invocation of a binary\<close>

lemma subprocess_call_calls:
  "calls (snd (subprocess_call os c s)) = calls s @ [(c, os (calls s) c)]"
  by (simp add: subprocess_call_def Let_def split: option.split)

lemma TestBinary_run_last:
  "fst (last (calls (snd (TestBinary_run os tb ex out s)))) =
     \<lparr>args = [binary_path tb,
              (case ex of None \<Rightarrow> '''' | Some xs \<Rightarrow>
                 if length xs > 0 then ''--gtest_filter='' @ format_excluded_tests xs else ''''),
              (case out of None \<Rightarrow> '''' | Some p \<Rightarrow> ''--gtest_output='' @ output_format tb @ '':'' @ p)],
      stdout = (case out of None \<Rightarrow> Inherit | Some p \<Rightarrow> DevNull)\<rparr>"
  by (simp add: TestBinary_run_def Let_def subprocess_call_calls)

lemma run_private_last:
  assumes "tests_dir (self s) = Some d" and "dict_get (tests (self s)) b = Some td"
  shows "fst (last (calls (snd (run_private os b od s)))) =
     \<lparr>args = [os_path_join d b,
              (case excluded_tests td of None \<Rightarrow> '''' | Some xs \<Rightarrow>
                 if length xs > 0 then ''--gtest_filter='' @ format_excluded_tests xs else ''''),
              (case get_output_path b od of None \<Rightarrow> ''''
               | Some p \<Rightarrow> ''--gtest_output=xml:'' @ p)],
      stdout = (case get_output_path b od of None \<Rightarrow> Inherit | Some p \<Rightarrow> DevNull)\<rparr>"
  using assms
  by (simp add: run_private_def os_path_join_opt_def Let_def TestBinary_run_last
        TestBinary_init_def split: option.split)

text \<open>
  C2. For a non-empty list of excluded tests the second element of the argument list
  handed to the child is \<^verbatim>\<open>--gtest_filter=-\<close> followed by the identifiers joined with
  colons. For an empty or absent list that position holds the empty string, and no
  argument after the executable path starts with \<^verbatim>\<open>--gtest_filter=\<close>.
\<close>

theorem filter_argument:
  "(xs \<noteq> [] \<longrightarrow>
      args (fst (last (calls (snd (TestBinary_run os tb (Some xs) out s))))) ! 1 =
        ''--gtest_filter=-'' @ py_join '':'' xs) \<and>
   (ex = None \<or> ex = Some [] \<longrightarrow>
      args (fst (last (calls (snd (TestBinary_run os tb ex out s))))) ! 1 = '''' \<and>
      (\<forall>a\<in>set (tl (args (fst (last (calls (snd (TestBinary_run os tb ex out s))))))).
         \<not> prefix ''--gtest_filter='' a))"
  by (auto simp add: TestBinary_run_last format_excluded_tests_def split: option.split)

theorem filter_argument_witness:
  "[''A.B'', ''C.D''] \<noteq> [] \<and>
   args (fst (last (calls (snd (TestBinary_run (\<lambda>log c. Some 0) (TestBinary_init ''/t/b'')
      (Some [''A.B'', ''C.D'']) None \<lparr>self = \<lparr>config_path = ''cfg'', tests_dir = Some ''/t'', tests = []\<rparr>, calls = []\<rparr>))))) ! 1
     = ''--gtest_filter=-A.B:C.D'' \<and>
   args (fst (last (calls (snd (TestBinary_run (\<lambda>log c. Some 0) (TestBinary_init ''/t/b'')
      None None \<lparr>self = \<lparr>config_path = ''cfg'', tests_dir = Some ''/t'', tests = []\<rparr>, calls = []\<rparr>)))))
     = [''/t/b'', '''', '''']"
  using filter_argument[of "[''A.B'', ''C.D'']" "\<lambda>log c. Some 0" "TestBinary_init ''/t/b''" None
     "\<lparr>self = \<lparr>config_path = ''cfg'', tests_dir = Some ''/t'', tests = []\<rparr>, calls = []\<rparr>" None]
  by (simp add: TestBinary_run_last TestBinary_init_def)

text \<open>
  C5. For a binary of the registry run from a tests dir: with an output dir the child's
  standard output goes to the null device and the argument list holds
  \<^verbatim>\<open>--gtest_output=xml:\<close> followed by the output dir joined with
  \<^verbatim>\<open>results_<name>.xml\<close> (which is \<^verbatim>\<open><dir>/results_<name>.xml\<close> for a non-empty dir
  without a trailing slash); without an output dir the standard output is inherited
  and no argument after the executable path starts with \<^verbatim>\<open>--gtest_output=\<close>.
\<close>

theorem output_argument:
  assumes "tests_dir (self s) = Some d" and "dict_get (tests (self s)) b = Some td"
  shows "stdout (fst (last (calls (snd (run_private os b (Some dir) s))))) = DevNull \<and>
         ''--gtest_output=xml:'' @ os_path_join dir (''results_'' @ b @ ''.xml'')
            \<in> set (args (fst (last (calls (snd (run_private os b (Some dir) s)))))) \<and>
         (dir \<noteq> [] \<and> last dir \<noteq> CHR ''/'' \<longrightarrow>
            os_path_join dir (''results_'' @ b @ ''.xml'') = dir @ ''/results_'' @ b @ ''.xml'') \<and>
         stdout (fst (last (calls (snd (run_private os b None s))))) = Inherit \<and>
         (\<forall>a\<in>set (tl (args (fst (last (calls (snd (run_private os b None s))))))).
            \<not> prefix ''--gtest_output='' a)"
  by (auto simp add: run_private_last[OF assms] get_output_path_def os_path_join_def
        format_excluded_tests_def split: option.split)

theorem output_argument_witness:
  "stdout (fst (last (calls (snd (run_private (\<lambda>log c. Some 0) ''base_unittests'' (Some ''/out'')
     \<lparr>self = \<lparr>config_path = ''cfg'', tests_dir = Some ''/t'',
               tests = [(''base_unittests'', \<lparr>excluded_tests = None, platforms = None\<rparr>)]\<rparr>,
      calls = []\<rparr>))))) = DevNull \<and>
   args (fst (last (calls (snd (run_private (\<lambda>log c. Some 0) ''base_unittests'' (Some ''/out'')
     \<lparr>self = \<lparr>config_path = ''cfg'', tests_dir = Some ''/t'',
               tests = [(''base_unittests'', \<lparr>excluded_tests = None, platforms = None\<rparr>)]\<rparr>,
      calls = []\<rparr>))))) =
     [''/t/base_unittests'', '''', ''--gtest_output=xml:/out/results_base_unittests.xml''] \<and>
   (''/out'' \<noteq> [] \<and> last ''/out'' \<noteq> CHR ''/'') \<and>
   os_path_join ''/out'' (''results_'' @ ''base_unittests'' @ ''.xml'')
     = ''/out'' @ ''/results_'' @ ''base_unittests'' @ ''.xml''"
  using output_argument[of
     "\<lparr>self = \<lparr>config_path = ''cfg'', tests_dir = Some ''/t'',
               tests = [(''base_unittests'', \<lparr>excluded_tests = None, platforms = None\<rparr>)]\<rparr>,
      calls = []\<rparr>" "''/t''" "''base_unittests''" "\<lparr>excluded_tests = None, platforms = None\<rparr>"
     "\<lambda>log c. Some 0" "''/out''"]
  by (simp add: dict_get_def run_private_def os_path_join_opt_def os_path_join_def
        TestBinary_init_def TestBinary_run_def subprocess_call_def get_output_path_def)

subsection \<open>The suite\<close>

lemma run_check_filter:
  "run_check obj bs =
     (case filter (\<lambda>b. \<not> dict_contains (tests obj) b) bs of
        [] \<Rightarrow> None
      | b # _ \<Rightarrow> Some (Exception (not_found_message b (config_path obj))))"
  by (induction bs) simp_all

text \<open>
  C4. If some requested name is not in the registry, \<^verbatim>\<open>run\<close> raises the exception
  naming the first such name and the config path, and the state it leaves is the
  state it was given: no call has been made, whatever the other names are.
\<close>

theorem run_unknown_binary:
  assumes "\<exists>b\<in>set binaries. \<not> dict_contains (tests (self s)) b"
  shows "run os binaries output_dir s =
           (Inl (Exception (not_found_message
                   (hd (filter (\<lambda>b. \<not> dict_contains (tests (self s)) b) binaries))
                   (config_path (self s)))), s)"
proof -
  from assms have "filter (\<lambda>b. \<not> dict_contains (tests (self s)) b) binaries \<noteq> []"
    by (simp add: filter_empty_conv)
  then obtain b rest where
    "filter (\<lambda>b. \<not> dict_contains (tests (self s)) b) binaries = b # rest"
    by (cases "filter (\<lambda>b. \<not> dict_contains (tests (self s)) b) binaries") auto
  then show ?thesis
    by (simp add: run_def run_check_filter)
qed

theorem run_unknown_binary_witness:
  "(\<exists>b\<in>set [''a_tests'', ''zzz''].
      \<not> dict_contains [(''a_tests'', \<lparr>excluded_tests = None, platforms = None\<rparr>)] b) \<and>
   run (\<lambda>log c. Some 0) [''a_tests'', ''zzz''] None
     \<lparr>self = \<lparr>config_path = ''cfg'', tests_dir = Some ''/t'',
               tests = [(''a_tests'', \<lparr>excluded_tests = None, platforms = None\<rparr>)]\<rparr>,
      calls = []\<rparr> =
     (Inl (Exception (not_found_message ''zzz'' ''cfg'')),
      \<lparr>self = \<lparr>config_path = ''cfg'', tests_dir = Some ''/t'',
               tests = [(''a_tests'', \<lparr>excluded_tests = None, platforms = None\<rparr>)]\<rparr>,
      calls = []\<rparr>)"
  using run_unknown_binary[of "[''a_tests'', ''zzz'']"
     "\<lparr>self = \<lparr>config_path = ''cfg'', tests_dir = Some ''/t'',
               tests = [(''a_tests'', \<lparr>excluded_tests = None, platforms = None\<rparr>)]\<rparr>,
      calls = []\<rparr>" "\<lambda>log c. Some 0" None]
  by (simp add: dict_contains_def)

lemma run_private_step:
  assumes "tests_dir (self s) = Some d" and "dict_contains (tests (self s)) b"
    and "\<forall>log c. os log c \<noteq> None"
  shows "\<exists>c code. run_private os b od s = (Inr code, s\<lparr>calls := calls s @ [(c, Some code)]\<rparr>) \<and>
           os (calls s) c = Some code \<and> hd (args c) = os_path_join d b"
proof -
  from assms(2) have "map_of (tests (self s)) b \<noteq> None"
    by (simp add: dict_contains_def map_of_eq_None_iff)
  then obtain td where td: "dict_get (tests (self s)) b = Some td"
    by (auto simp add: dict_get_def)
  define c where "c = \<lparr>args = [os_path_join d b,
              (case excluded_tests td of None \<Rightarrow> '''' | Some xs \<Rightarrow>
                 if length xs > 0 then ''--gtest_filter='' @ format_excluded_tests xs else ''''),
              (case get_output_path b od of None \<Rightarrow> ''''
               | Some p \<Rightarrow> ''--gtest_output=xml:'' @ p)],
      stdout = (case get_output_path b od of None \<Rightarrow> Inherit | Some p \<Rightarrow> DevNull)\<rparr>"
  from assms(3) obtain code where code: "os (calls s) c = Some code" by auto
  have "run_private os b od s = subprocess_call os c s"
    using assms(1) td
    by (simp add: run_private_def os_path_join_opt_def Let_def TestBinary_run_def
          TestBinary_init_def c_def cong: option.case_cong)
  then have "run_private os b od s = (Inr code, s\<lparr>calls := calls s @ [(c, Some code)]\<rparr>)"
    using code by (simp add: subprocess_call_def)
  moreover have "hd (args c) = os_path_join d b" by (simp add: c_def)
  ultimately show ?thesis using code by blast
qed

lemma run_loop_sum:
  assumes "tests_dir (self s) = Some d"
    and "\<forall>b\<in>set bs. dict_contains (tests (self s)) b"
    and "\<forall>log c. os log c \<noteq> None"
  shows "\<exists>new. run_loop os od bs acc s =
            (Inr (acc + sum_list (map (the \<circ> snd) new)), s\<lparr>calls := calls s @ new\<rparr>) \<and>
          map (hd \<circ> args \<circ> fst) new = map (os_path_join d) bs \<and>
          ((\<forall>log c. os log c = Some 1) \<longrightarrow> sum_list (map (the \<circ> snd) new) = int (length bs))"
  using assms
proof (induction bs arbitrary: acc s)
  case Nil
  show ?case by (rule exI[of _ "[]"]) simp
next
  case (Cons b bs)
  from Cons.prems have b: "dict_contains (tests (self s)) b" by simp
  from run_private_step[OF Cons.prems(1) b Cons.prems(3), of od]
  obtain c code where step: "run_private os b od s = (Inr code, s\<lparr>calls := calls s @ [(c, Some code)]\<rparr>)"
    and code: "os (calls s) c = Some code"
    and path: "hd (args c) = os_path_join d b" by blast
  let ?s1 = "s\<lparr>calls := calls s @ [(c, Some code)]\<rparr>"
  have "tests_dir (self ?s1) = Some d" using Cons.prems(1) by simp
  moreover have "\<forall>b\<in>set bs. dict_contains (tests (self ?s1)) b" using Cons.prems(2) by simp
  ultimately obtain new where
    loop: "run_loop os od bs (acc + code) ?s1 =
            (Inr (acc + code + sum_list (map (the \<circ> snd) new)), ?s1\<lparr>calls := calls ?s1 @ new\<rparr>)"
    and paths: "map (hd \<circ> args \<circ> fst) new = map (os_path_join d) bs"
    and ones: "(\<forall>log c. os log c = Some 1) \<longrightarrow> sum_list (map (the \<circ> snd) new) = int (length bs)"
    using Cons.IH[of ?s1 "acc + code"] Cons.prems(3) by blast
  have one: "(\<forall>log c. os log c = Some 1) \<longrightarrow> code = 1" using code by auto
  show ?case
    by (rule exI[of _ "(c, Some code) # new"]) (use step loop paths path ones one in \<open>simp add: comp_def\<close>)
qed

text \<open>
  C3. With a tests dir set, every requested name in the registry and every launch
  answering with an exit code, \<^verbatim>\<open>run\<close> returns the sum of the exit codes of the calls
  it made, and these calls are one per name, in the order given, each on that name's
  binary. In particular if every binary exits with 1 the result is the number of names.
\<close>

theorem run_returns_sum:
  assumes "\<forall>b\<in>set binaries. dict_contains (tests (self s)) b"
    and "tests_dir (self s) = Some d"
    and "\<forall>log c. os log c \<noteq> None"
  shows "fst (run os binaries output_dir s) =
           Inr (sum_list (map (the \<circ> snd)
                  (drop (length (calls s)) (calls (snd (run os binaries output_dir s)))))) \<and>
         map (hd \<circ> args \<circ> fst)
             (drop (length (calls s)) (calls (snd (run os binaries output_dir s))))
           = map (os_path_join d) binaries \<and>
         ((\<forall>log c. os log c = Some 1) \<longrightarrow>
            fst (run os binaries output_dir s) = Inr (int (length binaries)))"
proof -
  from assms(1) have "filter (\<lambda>b. \<not> dict_contains (tests (self s)) b) binaries = []"
    by (simp add: filter_empty_conv)
  then have r: "run os binaries output_dir s = run_loop os output_dir binaries 0 s"
    by (simp add: run_def run_check_filter)
  from run_loop_sum[OF assms(2) assms(1) assms(3), of output_dir 0]
  obtain new where
    "run_loop os output_dir binaries 0 s =
       (Inr (0 + sum_list (map (the \<circ> snd) new)), s\<lparr>calls := calls s @ new\<rparr>)"
    "map (hd \<circ> args \<circ> fst) new = map (os_path_join d) binaries"
    "(\<forall>log c. os log c = Some 1) \<longrightarrow> sum_list (map (the \<circ> snd) new) = int (length binaries)"
    by blast
  then show ?thesis using r by simp
qed

theorem run_returns_sum_witness:
  "list_all (dict_contains [(''b1'', \<lparr>excluded_tests = None, platforms = None\<rparr>),
                            (''b2'', \<lparr>excluded_tests = None, platforms = None\<rparr>)])
      [''b1'', ''b2''] \<and>
   (\<forall>log c. (if hd (args c) = ''/t/b1'' then Some 0 else Some (2::int)) \<noteq> None) \<and>
   fst (run (\<lambda>log c. if hd (args c) = ''/t/b1'' then Some 0 else Some 2) [''b1'', ''b2''] None
     \<lparr>self = \<lparr>config_path = ''cfg'', tests_dir = Some ''/t'',
               tests = [(''b1'', \<lparr>excluded_tests = None, platforms = None\<rparr>),
                        (''b2'', \<lparr>excluded_tests = None, platforms = None\<rparr>)]\<rparr>,
      calls = []\<rparr>) = Inr 2"
  using run_returns_sum[of "[''b1'', ''b2'']"
     "\<lparr>self = \<lparr>config_path = ''cfg'', tests_dir = Some ''/t'',
               tests = [(''b1'', \<lparr>excluded_tests = None, platforms = None\<rparr>),
                        (''b2'', \<lparr>excluded_tests = None, platforms = None\<rparr>)]\<rparr>,
      calls = []\<rparr>" "''/t''" "\<lambda>log c. if hd (args c) = ''/t/b1'' then Some 0 else Some 2" None]
  by (simp add: dict_contains_def dict_get_def run_def run_private_def os_path_join_opt_def
        os_path_join_def TestBinary_init_def TestBinary_run_def subprocess_call_def
        get_output_path_def)


subsection \<open>The names of the registry\<close>

lemma dict_set_keys:
  "map fst (dict_set d k v) = (if k \<in> set (map fst d) then map fst d else map fst d @ [k])"
  by (induction d k v rule: dict_set.induct) auto

lemma dict_set_subset: "set (dict_set d k v) \<subseteq> insert (k, v) (set d)"
  by (induction d k v rule: dict_set.induct) auto

lemma remdups_drop_seen: "n \<in> set ys \<Longrightarrow> remdups (xs @ n # ys) = remdups (xs @ ys)"
  by (induction xs) auto

lemma get_test_data_default:
  "get_test_data i = Inr (n, td) \<Longrightarrow> td = \<lparr>excluded_tests = None, platforms = None\<rparr>"
  by (auto simp add: get_test_data_def Let_def split: sum.splits list.splits option.splits if_splits)

lemma get_test_data_entry_name:
  assumes "get_test_data i = Inr (n, td)" and "entry_name i = Some n'"
  shows "n = n'"
  using assms(2,1)
  by (elim entry_name.elims)
     (auto simp add: get_test_data_def Let_def yaml_dict_def dict_keys_single
        split: sum.splits option.splits if_splits)

lemma tests_loop_keys:
  assumes "tests_loop items acc = Inr reg" and "\<forall>i\<in>set items. entry_name i \<noteq> None"
    and "distinct (map fst acc)"
  shows "map fst reg = rev (remdups (rev (map fst acc @ map (\<lambda>i. the (entry_name i)) items)))"
  using assms
proof (induction items arbitrary: acc)
  case Nil
  then show ?case by (simp add: distinct_remdups_id)
next
  case (Cons i items)
  from Cons.prems(1) obtain n td where gd: "get_test_data i = Inr (n, td)"
    and loop: "tests_loop items (dict_set acc n td) = Inr reg"
    by (auto split: sum.splits)
  from Cons.prems(2) obtain n' where n': "entry_name i = Some n'" by auto
  with gd have nn: "n' = n" using get_test_data_entry_name by blast
  have d: "distinct (map fst (dict_set acc n td))"
    using Cons.prems(3) by (simp add: dict_set_keys)
  have "map fst reg = rev (remdups (rev (map fst (dict_set acc n td) @ map (\<lambda>i. the (entry_name i)) items)))"
    using Cons.IH[OF loop _ d] Cons.prems(2) by simp
  then show ?case
    using n' nn by (simp add: dict_set_keys remdups_drop_seen)
qed

lemma tests_loop_values:
  assumes "tests_loop items acc = Inr reg"
    and "\<forall>p\<in>set acc. snd p = \<lparr>excluded_tests = None, platforms = None\<rparr>"
  shows "\<forall>p\<in>set reg. snd p = \<lparr>excluded_tests = None, platforms = None\<rparr>"
  using assms
proof (induction items arbitrary: acc)
  case Nil
  then show ?case by simp
next
  case (Cons i items)
  from Cons.prems(1) obtain n td where gd: "get_test_data i = Inr (n, td)"
    and loop: "tests_loop items (dict_set acc n td) = Inr reg"
    by (auto split: sum.splits)
  have "td = \<lparr>excluded_tests = None, platforms = None\<rparr>"
    using gd by (rule get_test_data_default)
  then have "\<forall>p\<in>set (dict_set acc n td). snd p = \<lparr>excluded_tests = None, platforms = None\<rparr>"
    using Cons.prems(2) dict_set_subset[of acc n td] by auto
  then show ?case using Cons.IH[OF loop] by blast
qed

lemma tests_loop_ok:
  assumes "tests_loop items acc = Inr reg" and "i \<in> set items"
  shows "\<exists>n td. get_test_data i = Inr (n, td)"
  using assms
proof (induction items arbitrary: acc)
  case Nil
  then show ?case by simp
next
  case (Cons j items)
  from Cons.prems(1) obtain n td where gd: "get_test_data j = Inr (n, td)"
    and loop: "tests_loop items (dict_set acc n td) = Inr reg"
    by (auto split: sum.splits)
  show ?case
  proof (cases "i = j")
    case True
    then show ?thesis using gd by blast
  next
    case False
    then show ?thesis using Cons.IH[OF loop] Cons.prems(2) by simp
  qed
qed

lemma dict_keys_set: "set (dict_keys d) = set (map fst d)"
  by (simp add: dict_keys_def Let_def)

lemma dict_keys_distinct: "distinct (dict_keys d) = distinct (map fst d)"
  by (simp add: dict_keys_def Let_def)

text \<open>
  C6 (as amended). For a configuration document that loads and whose entries are bare
  strings or single-key mappings, \<^verbatim>\<open>get_names\<close> returns exactly the binary names that
  occur in the document, each once, and the data kept for a name is that of the last
  entry with that name. The order is the iteration order of the dict: the distinct
  names in order of first occurrence, rearranged by the slot each occupies in the hash
  table.
\<close>

theorem get_names_distinct_names:
  assumes "TestsList_init fs path dir = Inr obj"
    and "fs path = Some doc"
    and "py_getitem ''tests'' doc = Inr (YSeq items)"
    and "\<forall>i\<in>set items. entry_name i \<noteq> None"
  shows "set (fst (get_names \<lparr>self = obj, calls = log\<rparr>)) = {n. \<exists>i\<in>set items. entry_name i = Some n} \<and>
         distinct (fst (get_names \<lparr>self = obj, calls = log\<rparr>)) \<and>
         fst (get_names \<lparr>self = obj, calls = log\<rparr>) =
           (let ks = rev (remdups (rev (map (\<lambda>i. the (entry_name i)) items)))
            in sort_key (py27_slot ks) ks) \<and>
         (\<forall>n\<in>set (fst (get_names \<lparr>self = obj, calls = log\<rparr>)).
            dict_get (tests obj) n =
              Some (snd (projr (get_test_data (last (filter (\<lambda>i. entry_name i = Some n) items))))))"
proof -
  let ?ks = "rev (remdups (rev (map (\<lambda>i. the (entry_name i)) items)))"
  from assms(1-3) have loop: "tests_loop items [] = Inr (tests obj)"
    by (auto simp add: TestsList_init_def get_tests_list_def get_config_data_def split: sum.splits)
  have keys: "map fst (tests obj) = ?ks"
    using tests_loop_keys[OF loop assms(4)] by simp
  have names: "set ?ks = {n. \<exists>i\<in>set items. entry_name i = Some n}"
    using assms(4) by (auto simp add: image_iff) force
  have g: "fst (get_names \<lparr>self = obj, calls = log\<rparr>) = dict_keys (tests obj)"
    by (simp add: get_names_def)
  have 1: "set (dict_keys (tests obj)) = {n. \<exists>i\<in>set items. entry_name i = Some n}"
    using keys names by (simp add: dict_keys_set)
  have 2: "distinct (dict_keys (tests obj))"
    using keys by (simp add: dict_keys_distinct)
  have 3: "dict_keys (tests obj) = (let ks = ?ks in sort_key (py27_slot ks) ks)"
    using keys by (simp add: dict_keys_def)
  have 4: "dict_get (tests obj) n =
              Some (snd (projr (get_test_data (last (filter (\<lambda>i. entry_name i = Some n) items)))))"
    if n: "n \<in> set (dict_keys (tests obj))" for n
  proof -
    from n have "n \<in> fst ` set (tests obj)" by (simp add: dict_keys_set)
    then have "map_of (tests obj) n \<noteq> None" by (simp add: map_of_eq_None_iff)
    then obtain td where td: "map_of (tests obj) n = Some td" by auto
    then have "(n, td) \<in> set (tests obj)" by (rule map_of_SomeD)
    then have tdd: "td = \<lparr>excluded_tests = None, platforms = None\<rparr>"
      using tests_loop_values[OF loop] by fastforce
    from n 1 have "filter (\<lambda>i. entry_name i = Some n) items \<noteq> []"
      by (auto simp add: filter_empty_conv)
    then have "last (filter (\<lambda>i. entry_name i = Some n) items)
                 \<in> set (filter (\<lambda>i. entry_name i = Some n) items)"
      by (rule last_in_set)
    then have li: "last (filter (\<lambda>i. entry_name i = Some n) items) \<in> set items"
      and le: "entry_name (last (filter (\<lambda>i. entry_name i = Some n) items)) = Some n"
      by auto
    from tests_loop_ok[OF loop li] obtain n' td' where
      gd: "get_test_data (last (filter (\<lambda>i. entry_name i = Some n) items)) = Inr (n', td')"
      by blast
    have "td' = \<lparr>excluded_tests = None, platforms = None\<rparr>"
      using gd by (rule get_test_data_default)
    then show ?thesis using td tdd gd by (simp add: dict_get_def)
  qed
  show ?thesis using g 1 2 3 4 by simp
qed

theorem get_names_distinct_names_witness:
  "TestsList_init
     [''cfg'' \<mapsto> YMap [(''tests'', YSeq [YStr ''b'', YMap [(''c'', YNull)], YStr ''b''])]]
     ''cfg'' None =
     Inr \<lparr>config_path = ''cfg'', tests_dir = None,
          tests = [(''b'', \<lparr>excluded_tests = None, platforms = None\<rparr>),
                   (''c'', \<lparr>excluded_tests = None, platforms = None\<rparr>)]\<rparr> \<and>
   list_all (\<lambda>i. entry_name i \<noteq> None) [YStr ''b'', YMap [(''c'', YNull)], YStr ''b''] \<and>
   set (fst (get_names
     \<lparr>self = \<lparr>config_path = ''cfg'', tests_dir = None,
          tests = [(''b'', \<lparr>excluded_tests = None, platforms = None\<rparr>),
                   (''c'', \<lparr>excluded_tests = None, platforms = None\<rparr>)]\<rparr>, calls = []\<rparr>))
     = {n. \<exists>i\<in>set [YStr ''b'', YMap [(''c'', YNull)], YStr ''b'']. entry_name i = Some n} \<and>
   distinct (fst (get_names
     \<lparr>self = \<lparr>config_path = ''cfg'', tests_dir = None,
          tests = [(''b'', \<lparr>excluded_tests = None, platforms = None\<rparr>),
                   (''c'', \<lparr>excluded_tests = None, platforms = None\<rparr>)]\<rparr>, calls = []\<rparr>))"
proof -
  let ?items = "[YStr ''b'', YMap [(''c'', YNull)], YStr ''b'']"
  let ?doc = "YMap [(''tests'', YSeq ?items)]"
  let ?obj = "\<lparr>config_path = ''cfg'', tests_dir = None,
          tests = [(''b'', \<lparr>excluded_tests = None, platforms = None\<rparr>),
                   (''c'', \<lparr>excluded_tests = None, platforms = None\<rparr>)]\<rparr>"
  have h1: "TestsList_init [''cfg'' \<mapsto> ?doc] ''cfg'' None = Inr ?obj"
    by code_simp
  have h2: "[''cfg'' \<mapsto> ?doc] ''cfg'' = Some ?doc"
    by simp
  have h3: "py_getitem ''tests'' ?doc = Inr (YSeq ?items)"
    by (simp add: yaml_dict_def dict_get_def)
  have h4: "\<forall>i\<in>set ?items. entry_name i \<noteq> None"
    by simp
  note t = get_names_distinct_names[OF h1 h2 h3 h4, of "[]"]
  show ?thesis
    by (intro conjI) (rule h1, simp, rule conjunct1[OF t], rule conjunct1[OF conjunct2[OF t]])
qed

text \<open>
  The order is not the order of first occurrence: for the document
  \<^verbatim>\<open>{tests: [b, c]}\<close> the names come back as \<^verbatim>\<open>c\<close>, \<^verbatim>\<open>b\<close>, since the hash of
  \<^verbatim>\<open>c\<close> selects slot 2 and that of \<^verbatim>\<open>b\<close> slot 3.
\<close>

theorem get_names_not_insertion_order:
  "TestsList_init [''cfg'' \<mapsto> YMap [(''tests'', YSeq [YStr ''b'', YStr ''c''])]] ''cfg'' None =
     Inr \<lparr>config_path = ''cfg'', tests_dir = None,
          tests = [(''b'', \<lparr>excluded_tests = None, platforms = None\<rparr>),
                   (''c'', \<lparr>excluded_tests = None, platforms = None\<rparr>)]\<rparr> \<and>
   fst (get_names
     \<lparr>self = \<lparr>config_path = ''cfg'', tests_dir = None,
          tests = [(''b'', \<lparr>excluded_tests = None, platforms = None\<rparr>),
                   (''c'', \<lparr>excluded_tests = None, platforms = None\<rparr>)]\<rparr>, calls = []\<rparr>)
     = [''c'', ''b'']"
  by code_simp

end
